theory Spec2Isabelle
  imports Main
begin

section \<open>Python text primitives\<close>

text \<open>
  The scripts read a file into a Python \<open>str\<close> and edit it with \<open>in\<close>, slicing,
  \<open>str.replace\<close>, \<open>str.split\<close> and the \<open>re\<close> module. A document is modelled as a
  \<open>string\<close>, one \<open>char\<close> per character (code points below 256).
\<close>

definition sq :: char where
  \<comment> \<open>the single quote character\<close>
  "sq = CHR 0x27"

fun starts_with :: "string \<Rightarrow> string \<Rightarrow> bool" where
  \<comment> \<open>\<open>s.startswith(p)\<close>, first argument the prefix\<close>
  "starts_with [] s = True"
| "starts_with (p # ps) [] = False"
| "starts_with (p # ps) (c # cs) = (if p = c then starts_with ps cs else False)"

fun contains :: "string \<Rightarrow> string \<Rightarrow> bool" where
  \<comment> \<open>\<open>p in s\<close>\<close>
  "contains p [] = starts_with p []"
| "contains p (c # cs) = (if starts_with p (c # cs) then True else contains p cs)"

section \<open>Regular expressions of the scripts\<close>

text \<open>
  Character classes: \<open>\s\<close>, \<open>\w\<close>, \<open>.\<close> (no newline, as DOTALL is never in force where a
  dot is used), \<open>[\s\S]\<close> and a negated single character \<open>[^c]\<close>.
\<close>

definition space_chars :: "char list" where
  "space_chars = [CHR 0x09, CHR 0x0A, CHR 0x0B, CHR 0x0C, CHR 0x0D, CHR 0x1C, CHR 0x1D,
     CHR 0x1E, CHR 0x1F, CHR 0x20, CHR 0x85, CHR 0xA0]"

definition word_chars :: "char list" where
  "word_chars = ''abcdefghijklmnopqrstuvwxyzABCDEFGHIJKLMNOPQRSTUVWXYZ0123456789_''
     @ [CHR 0xAA, CHR 0xB2, CHR 0xB3, CHR 0xB5, CHR 0xB9, CHR 0xBA, CHR 0xBC, CHR 0xBD,
        CHR 0xBE, CHR 0xC0, CHR 0xC1, CHR 0xC2, CHR 0xC3, CHR 0xC4, CHR 0xC5, CHR 0xC6,
        CHR 0xC7, CHR 0xC8, CHR 0xC9, CHR 0xCA, CHR 0xCB, CHR 0xCC, CHR 0xCD, CHR 0xCE,
        CHR 0xCF, CHR 0xD0, CHR 0xD1, CHR 0xD2, CHR 0xD3, CHR 0xD4, CHR 0xD5, CHR 0xD6,
        CHR 0xD8, CHR 0xD9, CHR 0xDA, CHR 0xDB, CHR 0xDC, CHR 0xDD, CHR 0xDE, CHR 0xDF,
        CHR 0xE0, CHR 0xE1, CHR 0xE2, CHR 0xE3, CHR 0xE4, CHR 0xE5, CHR 0xE6, CHR 0xE7,
        CHR 0xE8, CHR 0xE9, CHR 0xEA, CHR 0xEB, CHR 0xEC, CHR 0xED, CHR 0xEE, CHR 0xEF,
        CHR 0xF0, CHR 0xF1, CHR 0xF2, CHR 0xF3, CHR 0xF4, CHR 0xF5, CHR 0xF6, CHR 0xF8,
        CHR 0xF9, CHR 0xFA, CHR 0xFB, CHR 0xFC, CHR 0xFD, CHR 0xFE, CHR 0xFF]"

datatype cls = Space | Wordc | Dot | Anyc | Notc char

fun cls_ok :: "cls \<Rightarrow> char \<Rightarrow> bool" where
  "cls_ok Space c = (c \<in> set space_chars)"
| "cls_ok Wordc c = (c \<in> set word_chars)"
| "cls_ok Dot c = (c \<noteq> CHR 0x0A)"
| "cls_ok Anyc c = True"
| "cls_ok (Notc d) c = (c \<noteq> d)"

text \<open>
  The patterns use literals, a class under \<open>+\<close>, \<open>*\<close> or the lazy \<open>*?\<close>, concatenation,
  numbered groups, an optional group \<open>(?:...)?\<close> and a repeated group \<open>(...)+\<close>.
\<close>

datatype rx = Lit string | Plus cls | Star cls | Lazy cls | Cat rx rx | Grp nat rx
  | Opt rx | Rep1 rx

fun seq :: "rx list \<Rightarrow> rx" where
  "seq [] = Lit []"
| "seq [r] = r"
| "seq (r # rs) = Cat r (seq rs)"

text \<open>
  The backtracking matcher returns every way the pattern can match at the start of the
  text, in the order Python's engine tries them: a greedy quantifier offers the longest
  run first, a lazy one the shortest. Each way is the text left over and the groups
  captured so far; the engine's answer is the head of the list.
\<close>

fun stars_acc :: "cls \<Rightarrow> string \<Rightarrow> string list \<Rightarrow> string list" where
  "stars_acc k [] acc = [] # acc"
| "stars_acc k (x # xs) acc =
     (if cls_ok k x then stars_acc k xs ((x # xs) # acc) else (x # xs) # acc)"

definition stars :: "cls \<Rightarrow> string \<Rightarrow> string list" where
  "stars k s = stars_acc k s []"

fun pluss :: "cls \<Rightarrow> string \<Rightarrow> string list" where
  "pluss k [] = []"
| "pluss k (x # xs) = (if cls_ok k x then stars k xs else [])"

fun lazys :: "cls \<Rightarrow> string \<Rightarrow> string list" where
  "lazys k [] = [[]]"
| "lazys k (x # xs) = (x # xs) # (if cls_ok k x then lazys k xs else [])"

type_synonym caps = "nat \<Rightarrow> string option"

function (sequential) ms :: "rx \<Rightarrow> string \<Rightarrow> caps \<Rightarrow> (string \<times> caps) list" where
  "ms (Lit l) s c = (if starts_with l s then [(drop (length l) s, c)] else [])"
| "ms (Plus k) s c = map (\<lambda>t. (t, c)) (pluss k s)"
| "ms (Star k) s c = map (\<lambda>t. (t, c)) (stars k s)"
| "ms (Lazy k) s c = map (\<lambda>t. (t, c)) (lazys k s)"
| "ms (Cat a b) s c = concat (map (\<lambda>p. ms b (fst p) (snd p)) (ms a s c))"
| "ms (Grp n r) s c =
     map (\<lambda>p. (fst p, (snd p)(n \<mapsto> take (length s - length (fst p)) s))) (ms r s c)"
| "ms (Opt r) s c = ms r s c @ [(s, c)]"
| "ms (Rep1 r) s c =
     concat (map (\<lambda>p. (if length (fst p) < length s then ms (Rep1 r) (fst p) (snd p) else [])
                        @ [p]) (ms r s c))"
  by pat_completeness auto
termination
  by (relation "measures [\<lambda>(r, s, c). size r, \<lambda>(r, s, c). length s]") auto

text \<open>
  A match object: \<open>group(0)\<close> and the numbered groups. \<open>group m n\<close> is what an f-string
  prints for \<open>match.group(n)\<close>.
\<close>

record rmatch =
  whole :: string
  grp :: caps

definition group :: "rmatch \<Rightarrow> nat \<Rightarrow> string" where
  "group m n = (case grp m n of Some g \<Rightarrow> g | None \<Rightarrow> ''None'')"

text \<open>\<open>re.search\<close>: the leftmost position with a match, as (start, end, match).\<close>

fun search_from :: "rx \<Rightarrow> string \<Rightarrow> nat \<Rightarrow> (nat \<times> nat \<times> rmatch) option" where
  "search_from r [] i =
     (case ms r [] Map.empty of
        [] \<Rightarrow> None
      | p # _ \<Rightarrow> Some (i, i, \<lparr>whole = [], grp = snd p\<rparr>))"
| "search_from r (x # xs) i =
     (case ms r (x # xs) Map.empty of
        [] \<Rightarrow> search_from r xs (Suc i)
      | p # _ \<Rightarrow> Some (i, i + (length (x # xs) - length (fst p)),
                       \<lparr>whole = take (length (x # xs) - length (fst p)) (x # xs), grp = snd p\<rparr>))"

definition re_search :: "rx \<Rightarrow> string \<Rightarrow> (nat \<times> nat \<times> rmatch) option" where
  "re_search r s = search_from r s 0"

text \<open>
  \<open>re.sub(pattern, repl, text)\<close> with a callable \<open>repl\<close>: every non-overlapping match from
  the left is replaced; after an empty match one character is copied.
\<close>

function re_sub :: "rx \<Rightarrow> (rmatch \<Rightarrow> string) \<Rightarrow> string \<Rightarrow> string" where
  "re_sub r f [] =
     (case ms r [] Map.empty of
        [] \<Rightarrow> []
      | p # _ \<Rightarrow> f \<lparr>whole = [], grp = snd p\<rparr>)"
| "re_sub r f (x # xs) =
     (case ms r (x # xs) Map.empty of
        [] \<Rightarrow> x # re_sub r f xs
      | p # _ \<Rightarrow>
          (if length (fst p) < length (x # xs)
           then f \<lparr>whole = take (length (x # xs) - length (fst p)) (x # xs), grp = snd p\<rparr>
                @ re_sub r f (fst p)
           else f \<lparr>whole = [], grp = snd p\<rparr> @ x # re_sub r f xs))"
  by pat_completeness auto
termination
  by (relation "measure (\<lambda>(r, f, s). length s)") auto

text \<open>\<open>re.sub(..., count=1)\<close>: only the first match is replaced.\<close>

definition re_sub1 :: "rx \<Rightarrow> (rmatch \<Rightarrow> string) \<Rightarrow> string \<Rightarrow> string" where
  "re_sub1 r f s =
     (case re_search r s of
        None \<Rightarrow> s
      | Some (i, j, m) \<Rightarrow> take i s @ f m @ drop j s)"



section \<open>Errors, files and the remaining string methods\<close>

datatype py_error = IndexError | TypeError | ValueError | FileNotFoundError | SystemExit nat

definition bind_e :: "py_error + 'a \<Rightarrow> ('a \<Rightarrow> py_error + 'b) \<Rightarrow> py_error + 'b" where
  "bind_e x f = (case x of Inl e \<Rightarrow> Inl e | Inr v \<Rightarrow> f v)"

definition nth_e :: "'a list \<Rightarrow> nat \<Rightarrow> py_error + 'a" where
  \<comment> \<open>\<open>xs[i]\<close> for \<open>i \<ge> 0\<close>: IndexError out of range\<close>
  "nth_e xs i = (if i < length xs then Inr (xs ! i) else Inl IndexError)"

function str_replace :: "string \<Rightarrow> string \<Rightarrow> string \<Rightarrow> string" where
  \<comment> \<open>\<open>s.replace(old, new)\<close>: every occurrence, left to right, without overlap\<close>
  "str_replace [] new s = new @ concat (map (\<lambda>c. c # new) s)"
| "str_replace (a # old) new [] = []"
| "str_replace (a # old) new (x # xs) =
     (if starts_with (a # old) (x # xs)
      then new @ str_replace (a # old) new (drop (length old) xs)
      else x # str_replace (a # old) new xs)"
  by pat_completeness auto
termination
  by (relation "measure (\<lambda>(old, new, s). length s)") auto

function split_acc :: "string \<Rightarrow> string \<Rightarrow> string \<Rightarrow> string list" where
  "split_acc sep [] cur = [rev cur]"
| "split_acc sep (x # xs) cur =
     (if sep \<noteq> [] \<and> starts_with sep (x # xs)
      then rev cur # split_acc sep (drop (length sep) (x # xs)) []
      else split_acc sep xs (x # cur))"
  by pat_completeness auto
termination
  by (relation "measure (\<lambda>(sep, s, cur). length s)") (auto simp: neq_Nil_conv)

definition str_split :: "string \<Rightarrow> string \<Rightarrow> py_error + string list" where
  \<comment> \<open>\<open>s.split(sep)\<close>: ValueError on an empty separator\<close>
  "str_split sep s = (if sep = [] then Inl ValueError else Inr (split_acc sep s []))"

definition tgroup :: "rmatch \<Rightarrow> nat \<Rightarrow> string" where
  \<comment> \<open>\<open>\n\<close> in a replacement template: a group that took no part is empty\<close>
  "tgroup m n = (case grp m n of Some g \<Rightarrow> g | None \<Rightarrow> [])"

definition cgroup :: "rmatch \<Rightarrow> nat \<Rightarrow> py_error + string" where
  \<comment> \<open>\<open>m.group(n) + '...'\<close>: TypeError when the group is None\<close>
  "cgroup m n = (case grp m n of Some g \<Rightarrow> Inr g | None \<Rightarrow> Inl TypeError)"

text \<open>\<open>re.sub\<close> with a callback that may raise: the first exception ends the call.\<close>

function re_sub_e :: "rx \<Rightarrow> (rmatch \<Rightarrow> py_error + string) \<Rightarrow> string \<Rightarrow> py_error + string" where
  "re_sub_e r f [] =
     (case ms r [] Map.empty of
        [] \<Rightarrow> Inr []
      | p # _ \<Rightarrow> f \<lparr>whole = [], grp = snd p\<rparr>)"
| "re_sub_e r f (x # xs) =
     (case ms r (x # xs) Map.empty of
        [] \<Rightarrow> bind_e (re_sub_e r f xs) (\<lambda>u. Inr (x # u))
      | p # _ \<Rightarrow>
          (if length (fst p) < length (x # xs)
           then bind_e (f \<lparr>whole = take (length (x # xs) - length (fst p)) (x # xs),
                            grp = snd p\<rparr>)
                  (\<lambda>t. bind_e (re_sub_e r f (fst p)) (\<lambda>u. Inr (t @ u)))
           else bind_e (f \<lparr>whole = [], grp = snd p\<rparr>)
                  (\<lambda>t. bind_e (re_sub_e r f xs) (\<lambda>u. Inr (t @ x # u)))))"
  by pat_completeness auto
termination
  by (relation "measure (\<lambda>(r, f, s). length s)") auto

definition re_sub1_e :: "rx \<Rightarrow> (rmatch \<Rightarrow> py_error + string) \<Rightarrow> string \<Rightarrow> py_error + string" where
  \<comment> \<open>\<open>re.sub(..., count=1)\<close>\<close>
  "re_sub1_e r f s =
     (case re_search r s of
        None \<Rightarrow> Inr s
      | Some (i, j, m) \<Rightarrow> bind_e (f m) (\<lambda>t. Inr (take i s @ t @ drop j s)))"

text \<open>
  The file system is a map from paths to contents; \<open>w_writes\<close> logs every write, in order,
  so that a write of unchanged content is still seen. Terminal output is not modelled.
\<close>

record world =
  w_files :: "string \<Rightarrow> string option"
  w_writes :: "string list"

definition write_file :: "string \<Rightarrow> string \<Rightarrow> world \<Rightarrow> world" where
  "write_file path content w =
     w\<lparr>w_files := (w_files w)(path \<mapsto> content), w_writes := w_writes w @ [path]\<rparr>"

section \<open>fix-test-files.py: the consolidated fixer\<close>

definition helper_function :: string where
  "helper_function =
     ''\<newline>// Helper for creating valid Lexical content\<newline>'' @
     ''const createLexicalContent = (text: string) => ({\<newline>'' @
     ''  root: {\<newline>'' @
     ''    type: 'root',\<newline>'' @
     ''    children: [\<newline>'' @
     ''      {\<newline>'' @
     ''        type: 'paragraph',\<newline>'' @
     ''        version: 1,\<newline>'' @
     ''        children: [{ type: 'text', text }],\<newline>'' @
     ''        direction: null,\<newline>'' @
     ''        format: '' @ [sq, sq] @ '' as const,\<newline>'' @
     ''        indent: 0,\<newline>'' @
     ''      },\<newline>'' @
     ''    ],\<newline>'' @
     ''    direction: null,\<newline>'' @
     ''    format: '' @ [sq, sq] @ '' as const,\<newline>'' @
     ''    indent: 0,\<newline>'' @
     ''    version: 1,\<newline>'' @
     ''  },\<newline>'' @
     ''})\<newline>''"

definition import_re :: rx where
  "import_re =
     Rep1 (Grp 1 (seq [Lit ''import '',
              Plus Dot,
              Lit ''\<newline>'']))"

definition add_lexical_helper :: "string \<Rightarrow> string list \<Rightarrow> string \<times> string list" where
  \<comment> \<open>the content and \<open>self.fixes_applied\<close>, both returned updated\<close>
  "add_lexical_helper content fixes_applied =
     (if \<not> contains ''createLexicalContent'' content then
        (case re_search import_re content of
           Some (i, insert_pos, m) \<Rightarrow>
             (take insert_pos content @ helper_function @ drop insert_pos content,
              fixes_applied @ [''Added Lexical helper function''])
         | None \<Rightarrow> (content, fixes_applied))
      else (content, fixes_applied))"

definition pattern1 :: rx where
  "pattern1 =
     seq [Grp 1 (seq [Lit ''await payload.create({'',
              Plus Space,
              Lit ''collection: 'users','',
              Plus Space,
              Lit ''data: {'',
              Plus (Notc CHR ''}''),
              Lit ''},'']),
          Plus Space,
          Grp 2 (Lit ''})'')]"

definition draft_text :: string where
  "draft_text =
     ''\<newline>      draft: false,\<newline>'' @
     ''    ''"

definition add_draft :: "rmatch \<Rightarrow> string" where
  "add_draft m = group m 1 @ draft_text @ group m 2"

definition user_test_re :: rx where
  "user_test_re =
     seq [Lit ''email: `test-'',
          Plus Wordc,
          Lit ''-${Date.now()}@example.com`,'',
          Plus Space,
          Lit ''password: 'test123','',
          Plus Space,
          Lit ''roles: ['user'],'']"

definition user_another_re :: rx where
  "user_another_re =
     seq [Lit ''email: `another-'',
          Plus Wordc,
          Lit ''-${Date.now()}@example.com`,'',
          Plus Space,
          Lit ''password: 'test123','',
          Plus Space,
          Lit ''roles: ['user'],'']"

definition roles_old :: string where
  "roles_old =
     ''roles: ['user'],''"

definition test_fields :: string where
  "test_fields =
     ''firstName: 'Test',\<newline>'' @
     ''        lastName: 'User',\<newline>'' @
     ''        password: 'test123',\<newline>'' @
     ''        roles: ['user'],''"

definition test_dup :: string where
  "test_dup =
     ''password: 'test123',\<newline>'' @
     ''        firstName:''"

definition another_fields :: string where
  "another_fields =
     ''firstName: 'Another',\<newline>'' @
     ''          lastName: 'User',\<newline>'' @
     ''          password: 'test123',\<newline>'' @
     ''          roles: ['user'],''"

definition another_dup :: string where
  "another_dup =
     ''password: 'test123',\<newline>'' @
     ''          firstName:''"

definition add_names_test :: "rmatch \<Rightarrow> string" where
  "add_names_test m =
     str_replace test_dup ''firstName:'' (str_replace roles_old test_fields (whole m))"

definition add_names_another :: "rmatch \<Rightarrow> string" where
  "add_names_another m =
     str_replace another_dup ''firstName:'' (str_replace roles_old another_fields (whole m))"

definition fix_user_creation :: "string \<Rightarrow> string list \<Rightarrow> string \<times> string list" where
  "fix_user_creation content fixes_applied =
     (let original_content = content;
          content = re_sub pattern1 add_draft content;
          content = re_sub user_test_re add_names_test content;
          content = re_sub user_another_re add_names_another content
      in (content, if content \<noteq> original_content
                   then fixes_applied @ [''Fixed user creation''] else fixes_applied))"

definition root_pattern :: rx where
  "root_pattern =
     seq [Grp 1 (seq [Lit ''children: ['',
              Star Space,
              Lit ''{'',
              Star Space,
              Lit ''type: 'paragraph','',
              Star Space,
              Lit ''version: 1,'',
              Star Space,
              Lit ''children: ['',
              Plus (Notc CHR '']''),
              Lit ''],'',
              Star Space,
              Lit ''},'',
              Star Space,
              Lit ''],'']),
          Star Space,
          Grp 2 (seq [Lit ''}'',
              Star Space,
              Lit ''}''])]"

definition root_pattern2 :: rx where
  "root_pattern2 =
     seq [Grp 1 (seq [Lit ''children: ['',
              Star Space,
              Rep1 (seq [Lit ''{'',
                  Star Space,
                  Lit ''type: 'paragraph','',
                  Star Space,
                  Lit ''version: 1,'',
                  Star Space,
                  Lit ''children: ['',
                  Plus (Notc CHR '']''),
                  Lit ''],'',
                  Star Space,
                  Lit ''},'',
                  Star Space]),
              Lit ''],'']),
          Star Space,
          Grp 2 (seq [Lit ''}'',
              Star Space,
              Lit ''}''])]"

definition root_props :: string where
  "root_props =
     ''\<newline>              direction: null,\<newline>'' @
     ''              format: '' @ [sq, sq] @ '',\<newline>'' @
     ''              indent: 0,\<newline>'' @
     ''              version: 1,\<newline>'' @
     ''            ''"

definition add_root_properties :: "rmatch \<Rightarrow> string" where
  "add_root_properties m = group m 1 @ root_props @ group m 2"

definition fix_root_structures :: "string \<Rightarrow> string list \<Rightarrow> string \<times> string list" where
  "fix_root_structures content fixes_applied =
     (let original_content = content;
          content = re_sub root_pattern add_root_properties content;
          content = re_sub root_pattern2 add_root_properties content
      in (content, if content \<noteq> original_content
                   then fixes_applied @ [''Fixed root structures''] else fixes_applied))"

definition lexical_pattern :: rx where
  "lexical_pattern =
     seq [Lit ''content: {'',
          Plus Space,
          Lit ''root: {'',
          Plus Space,
          Lit ''type: 'root','',
          Plus Space,
          Lit ''children: ['',
          Plus Space,
          Lit ''{'',
          Plus Space,
          Lit ''type: 'paragraph','',
          Plus Space,
          Lit ''version: 1,'',
          Plus Space,
          Lit (''children: [{ type: 'text', text: '' @ [sq]),
          Grp 1 (Plus (Notc sq)),
          Lit ''' }],'',
          Plus Space,
          Opt (seq [Lit ''direction: null,'',
              Plus Space,
              Lit (''format: '' @ [sq, sq] @ '',''),
              Plus Space,
              Lit ''indent: 0,'',
              Plus Space,
              Lit ''version: 1,'',
              Plus Space]),
          Lit ''},'',
          Plus Space,
          Lit ''],'',
          Plus Space,
          Opt (seq [Lit ''direction: null,'',
              Plus Space,
              Lit (''format: '' @ [sq, sq] @ '',''),
              Plus Space,
              Lit ''indent: 0,'',
              Plus Space,
              Lit ''version: 1,'',
              Plus Space]),
          Lit ''},'',
          Plus Space,
          Lit ''},'']"

definition replace_content :: "rmatch \<Rightarrow> string" where
  "replace_content m = ''content: createLexicalContent('' @ [sq] @ group m 1 @ [sq] @ ''),''"

definition fix_lexical_content :: "string \<Rightarrow> string list \<Rightarrow> string \<times> string list" where
  "fix_lexical_content content fixes_applied =
     (let original_content = content;
          content = re_sub lexical_pattern replace_content content
      in (content, if content \<noteq> original_content
                   then fixes_applied @ [''Fixed Lexical content structures'']
                   else fixes_applied))"

definition wanted :: "string list option \<Rightarrow> string \<Rightarrow> bool" where
  \<comment> \<open>\<open>not fix_types or name in fix_types\<close>\<close>
  "wanted fix_types name =
     (case fix_types of None \<Rightarrow> True | Some ts \<Rightarrow> ts = [] \<or> name \<in> set ts)"

definition apply_fixes :: "string list option \<Rightarrow> string \<Rightarrow> string \<times> string list" where
  \<comment> \<open>the four guarded steps of \<open>process_file\<close>, from \<open>self.fixes_applied = []\<close>\<close>
  "apply_fixes fix_types content =
     (let st = (content, []);
          st = (if wanted fix_types ''lexical-helper''
                then add_lexical_helper (fst st) (snd st) else st);
          st = (if wanted fix_types ''user-creation''
                then fix_user_creation (fst st) (snd st) else st);
          st = (if wanted fix_types ''root-structures''
                then fix_root_structures (fst st) (snd st) else st);
          st = (if wanted fix_types ''lexical-content''
                then fix_lexical_content (fst st) (snd st) else st)
      in st)"

definition process_file :: "string \<Rightarrow> string list option \<Rightarrow> world \<Rightarrow> bool \<times> world" where
  "process_file filepath fix_types w =
     (case w_files w filepath of
        None \<Rightarrow> (False, w)
      | Some original_content \<Rightarrow>
          (let content = fst (apply_fixes fix_types original_content)
           in if content \<noteq> original_content
              then (True, write_file filepath content w)
              else (False, w)))"

definition fix_choices :: "string list" where
  "fix_choices = [''lexical-helper'', ''user-creation'', ''root-structures'', ''lexical-content'']"

definition default_files :: "string list" where
  "default_files =
     [''tests/int/blogs.int.spec.ts'', ''tests/int/legal.int.spec.ts'',
      ''tests/int/services.int.spec.ts'', ''tests/int/pages.int.spec.ts'',
      ''tests/int/access-control.int.spec.ts'', ''tests/int/contacts.int.spec.ts'',
      ''tests/performance/hooks.perf.spec.ts'', ''tests/performance/queries.perf.spec.ts'',
      ''tests/pbt/utilities/circularReference.pbt.spec.ts'']"

text \<open>
  The command line as \<open>argparse\<close> sees it: the positional files, the values after
  \<open>--fix-types\<close> (None when the option is absent) and \<open>--pattern\<close>. \<open>parse_args\<close> checks
  every value of \<open>--fix-types\<close> against \<open>choices\<close> and exits with status 2 on the first
  that is not one of them.
\<close>

record cli =
  arg_files :: "string list"
  arg_fix_types :: "string list option"
  arg_pattern :: "string option"

definition parse_args :: "cli \<Rightarrow> py_error + cli" where
  "parse_args a =
     (case arg_fix_types a of
        None \<Rightarrow> Inr a
      | Some ts \<Rightarrow> if list_all (\<lambda>t. t \<in> set fix_choices) ts then Inr a else Inl (SystemExit 2))"

fun process_all :: "string list \<Rightarrow> string list option \<Rightarrow> nat \<Rightarrow> world \<Rightarrow> nat \<times> world" where
  \<comment> \<open>the loop of \<open>main\<close>, with \<open>fixed_count\<close>\<close>
  "process_all [] fix_types fixed_count w = (fixed_count, w)"
| "process_all (filepath # rest) fix_types fixed_count w =
     (case process_file filepath fix_types w of
        (True, w') \<Rightarrow> process_all rest fix_types (fixed_count + 1) w'
      | (False, w') \<Rightarrow> process_all rest fix_types fixed_count w')"

definition main :: "(world \<Rightarrow> string \<Rightarrow> string list) \<Rightarrow> cli \<Rightarrow> world \<Rightarrow> (py_error + nat) \<times> world" where
  \<comment> \<open>\<open>glob\<close> stands for \<open>glob.glob(pattern, recursive=True)\<close>; the result is the exit
      error or \<open>fixed_count\<close>\<close>
  "main glob argv w =
     (case parse_args argv of
        Inl e \<Rightarrow> (Inl e, w)
      | Inr args \<Rightarrow>
          (let files_to_process =
                 (if arg_files args \<noteq> [] then arg_files args else default_files);
               files_to_process =
                 (case arg_pattern args of
                    None \<Rightarrow> files_to_process
                  | Some p \<Rightarrow> if p \<noteq> [] then glob w p else files_to_process);
               (fixed_count, w') = process_all files_to_process (arg_fix_types args) 0 w
           in (Inr fixed_count, w')))"

section \<open>fix_all_remaining_errors.py\<close>

definition fix_remaining :: "string \<Rightarrow> string \<times> string list" where
  \<comment> \<open>the three fixes of the loop body: the content and \<open>changes\<close>\<close>
  "fix_remaining content0 =
     (let content = content0; changes = [];
          new_content = re_sub pattern1 add_draft content;
          (content, changes) =
             (if new_content \<noteq> content
              then (new_content, changes @ [''Added draft property to user creation''])
              else (content, changes));
          new_content = re_sub root_pattern add_root_properties content;
          (content, changes) =
             (if new_content \<noteq> content
              then (new_content, changes @ [''Added root properties''])
              else (content, changes));
          new_content = re_sub root_pattern2 add_root_properties content;
          (content, changes) =
             (if new_content \<noteq> content \<and> new_content \<noteq> content
              then (new_content, changes @ [''Added root properties (multi-paragraph)''])
              else (content, changes))
      in (content, changes))"

definition remaining_errors_file :: "string \<Rightarrow> world \<Rightarrow> world" where
  "remaining_errors_file filepath w =
     (case w_files w filepath of
        None \<Rightarrow> w
      | Some original_content \<Rightarrow>
          (let content = fst (fix_remaining original_content)
           in if content \<noteq> original_content then write_file filepath content w else w))"

section \<open>fix_all_test_content.py: the helper insertion\<close>

definition insert_helper :: "string \<Rightarrow> string" where
  "insert_helper content =
     (if \<not> contains ''createLexicalContent'' content then
        (case re_search import_re content of
           Some (i, insert_pos, m) \<Rightarrow>
             take insert_pos content @ helper_function @ drop insert_pos content
         | None \<Rightarrow> content)
      else content)"

section \<open>fix_test_files.py\<close>

definition lazy_root_pattern :: rx where
  "lazy_root_pattern =
     seq [Grp 1 (seq [Lit ''root: {'',
              Plus Space,
              Lit ''type: 'root','',
              Plus Space,
              Lit ''children: ['',
              Lazy Anyc,
              Lit ''],'']),
          Plus Space,
          Grp 2 (seq [Lit ''}'',
              Plus Space,
              Lit ''}''])]"

definition lazy_props :: string where
  "lazy_props =
     ''\<newline>                direction: null,\<newline>'' @
     ''                format: '' @ [sq, sq] @ '',\<newline>'' @
     ''                indent: 0,\<newline>'' @
     ''                version: 1,\<newline>'' @
     ''              ''"

definition lazy_replacement :: "rmatch \<Rightarrow> string" where
  "lazy_replacement m = tgroup m 1 @ lazy_props @ tgroup m 2"

definition fix_test_files_content :: "string \<Rightarrow> string" where
  "fix_test_files_content content = re_sub lazy_root_pattern lazy_replacement content"

definition fix_test_files_file :: "string \<Rightarrow> world \<Rightarrow> world" where
  \<comment> \<open>the loop body: the file is written back whatever the substitution did\<close>
  "fix_test_files_file filepath w =
     (case w_files w filepath of
        None \<Rightarrow> w
      | Some content \<Rightarrow> write_file filepath (fix_test_files_content content) w)"

definition fix_test_files_list :: "string list" where
  "fix_test_files_list =
     [''tests/int/blogs.int.spec.ts'', ''tests/int/legal.int.spec.ts'',
      ''tests/int/services.int.spec.ts'', ''tests/int/pages.int.spec.ts'']"

definition fix_test_files_main :: "world \<Rightarrow> world" where
  "fix_test_files_main w = foldl (\<lambda>w filepath. fix_test_files_file filepath w) w fix_test_files_list"

section \<open>fix_tests_final.py\<close>

definition COMPLETE_ROOT :: string where
  "COMPLETE_ROOT =
     ''root: {\<newline>'' @
     ''                type: 'root',\<newline>'' @
     ''                children: [\<newline>'' @
     ''                  {\<newline>'' @
     ''                    type: 'paragraph',\<newline>'' @
     ''                    version: 1,\<newline>'' @
     ''                    children: [{ type: 'text', text: 'CONTENT_TEXT' }],\<newline>'' @
     ''                  },\<newline>'' @
     ''                ],\<newline>'' @
     ''                direction: null,\<newline>'' @
     ''                format: '' @ [sq, sq] @ '',\<newline>'' @
     ''                indent: 0,\<newline>'' @
     ''                version: 1,\<newline>'' @
     ''              }''"

definition incomplete_pre :: string where
  "incomplete_pre =
     ''root: {\<newline>'' @
     ''                type: 'root',\<newline>'' @
     ''                children: [\<newline>'' @
     ''                  {\<newline>'' @
     ''                    type: 'paragraph',\<newline>'' @
     ''                    version: 1,\<newline>'' @
     ''                    children: [{ type: 'text', text: '' @ [sq]"

definition incomplete_post :: string where
  "incomplete_post =
     ''' }],\<newline>'' @
     ''                  },\<newline>'' @
     ''                ],\<newline>'' @
     ''              }''"

definition incomplete :: "string \<Rightarrow> string" where
  "incomplete txt = incomplete_pre @ txt @ incomplete_post"

definition fix_file :: "string \<Rightarrow> string list \<Rightarrow> world \<Rightarrow> py_error + world" where
  "fix_file filepath content_texts w =
     (case w_files w filepath of
        None \<Rightarrow> Inl FileNotFoundError
      | Some content0 \<Rightarrow>
          (let content =
                 foldl (\<lambda>content txt.
                          str_replace (incomplete txt)
                            (str_replace ''CONTENT_TEXT'' txt COMPLETE_ROOT) content)
                   content0 content_texts
           in Inr (write_file filepath content w)))"

section \<open>fix_test_files_carefully.py\<close>

definition content_block_re :: rx where
  "content_block_re =
     seq [Lit ''content: {'',
          Star Space,
          Lit ''root: {'',
          Plus (Notc CHR ''}''),
          Lit ''type: 'root','',
          Plus (Notc CHR ''}''),
          Lit ''children: ['',
          Plus (Notc CHR '']''),
          Lit ''],'',
          Star (Notc CHR ''}''),
          Lit ''}'']"

definition root_close_re :: rx where
  "root_close_re =
     seq [Grp 1 (seq [Lit ''children: ['',
              Plus (Notc CHR '']''),
              Lit ''],'']),
          Star Space,
          Lit ''}'']"







section \<open>fix_user_creation.py: the draft removal\<close>

definition draft_removal_re :: rx where
  "draft_removal_re =
     seq [Grp 1 (seq [Lit ''collection: 'users','',
              Star Space,
              Lit ''data: {'',
              Plus (Notc CHR ''}''),
              Lit ''},'']),
          Star Space,
          Lit ''draft: false,'',
          Star Space,
          Lit ''}'']"

definition removal_tail :: string where
  "removal_tail =
     ''\<newline>      }''"

definition remove_draft_repl :: "rmatch \<Rightarrow> string" where
  "remove_draft_repl m = tgroup m 1 @ removal_tail"

definition remove_draft :: "string \<Rightarrow> string" where
  "remove_draft content = re_sub draft_removal_re remove_draft_repl content"

section \<open>Evaluation rules\<close>

text \<open>
  Concrete documents are evaluated by rewriting. The rules below restate the definitions
  so that each step looks only at the first character of the text: \<open>lead_ne r x\<close> says
  that no match of \<open>r\<close> can start with \<open>x\<close>, and \<open>bindm\<close>, \<open>capm\<close>, \<open>bindr\<close> and \<open>pairs\<close>
  name the list traversals of the matcher.
\<close>

fun lead_ne :: "rx \<Rightarrow> char \<Rightarrow> bool" where
  "lead_ne (Lit l) x = (case l of [] \<Rightarrow> False | a # _ \<Rightarrow> a \<noteq> x)"
| "lead_ne (Cat a b) x = lead_ne a x"
| "lead_ne (Grp n r) x = lead_ne r x"
| "lead_ne (Rep1 r) x = lead_ne r x"
| "lead_ne r x = False"

definition bindm :: "rx \<Rightarrow> (string \<times> caps) list \<Rightarrow> (string \<times> caps) list" where
  "bindm b ps = concat (map (\<lambda>p. ms b (fst p) (snd p)) ps)"

definition capm :: "nat \<Rightarrow> string \<Rightarrow> (string \<times> caps) list \<Rightarrow> (string \<times> caps) list" where
  "capm n s ps = map (\<lambda>p. (fst p, (snd p)(n \<mapsto> take (length s - length (fst p)) s))) ps"

definition bindr :: "rx \<Rightarrow> string \<Rightarrow> (string \<times> caps) list \<Rightarrow> (string \<times> caps) list" where
  "bindr r s ps =
     concat (map (\<lambda>p. (if length (fst p) < length s then ms (Rep1 r) (fst p) (snd p) else [])
                        @ [p]) ps)"

definition pairs :: "caps \<Rightarrow> string list \<Rightarrow> (string \<times> caps) list" where
  "pairs c ts = map (\<lambda>t. (t, c)) ts"


text \<open>
  The words a pattern can match, without regard to priority: the matcher returns exactly
  the splits of the text whose first part is one of them (\<open>ms_sound\<close>, \<open>ms_complete\<close>).
\<close>

fun lang :: "rx \<Rightarrow> string set" where
  "lang (Lit l) = {l}"
| "lang (Plus k) = {w. w \<noteq> [] \<and> list_all (cls_ok k) w}"
| "lang (Star k) = {w. list_all (cls_ok k) w}"
| "lang (Lazy k) = {w. list_all (cls_ok k) w}"
| "lang (Cat a b) = {u @ v | u v. u \<in> lang a \<and> v \<in> lang b}"
| "lang (Grp n r) = lang r"
| "lang (Opt r) = insert [] (lang r)"
| "lang (Rep1 r) = {concat ws | ws. ws \<noteq> [] \<and> set ws \<subseteq> lang r}"


section \<open>Notions of the claims\<close>

text \<open>
  An import line, as the helper insertion looks for it: the text \<open>import\<close> and a blank,
  at least one character that is not a newline, and later on a newline. \<open>count_sub\<close>
  counts the places where a text occurs.
\<close>

definition import_at :: "string \<Rightarrow> bool" where
  "import_at s =
     (starts_with ''import '' s \<and>
      (case drop 7 s of [] \<Rightarrow> False | c # r \<Rightarrow> c \<noteq> CHR 0x0A \<and> CHR 0x0A \<in> set r))"

fun has_import :: "string \<Rightarrow> bool" where
  "has_import [] = False"
| "has_import (c # cs) = (import_at (c # cs) \<or> has_import cs)"

fun count_sub :: "string \<Rightarrow> string \<Rightarrow> nat" where
  "count_sub p [] = (if starts_with p [] then 1 else 0)"
| "count_sub p (c # cs) = (if starts_with p (c # cs) then 1 else 0) + count_sub p cs"






section \<open>Documents of the examples\<close>

text \<open>
  A users-collection create call whose data holds one Lexical content object, and what
  the full fix pipeline makes of it on a first and on a second run.
\<close>

definition users_doc :: string where
  "users_doc =
     ''await payload.create({\<newline>'' @
     ''  collection: 'users',\<newline>'' @
     ''  data: {\<newline>'' @
     ''    content: {\<newline>'' @
     ''      root: {\<newline>'' @
     ''        type: 'root',\<newline>'' @
     ''        children: [\<newline>'' @
     ''          {\<newline>'' @
     ''            type: 'paragraph',\<newline>'' @
     ''            version: 1,\<newline>'' @
     ''            children: [{ type: 'text', text: 'x' }],\<newline>'' @
     ''          },\<newline>'' @
     ''        ],\<newline>'' @
     ''      },\<newline>'' @
     ''    },\<newline>'' @
     ''  },\<newline>'' @
     ''})\<newline>''"

definition users_doc_fixed :: string where
  "users_doc_fixed =
     ''await payload.create({\<newline>'' @
     ''  collection: 'users',\<newline>'' @
     ''  data: {\<newline>'' @
     ''    content: createLexicalContent('x'),\<newline>'' @
     ''  },\<newline>'' @
     ''})\<newline>''"

definition users_doc_refixed :: string where
  "users_doc_refixed =
     ''await payload.create({\<newline>'' @
     ''  collection: 'users',\<newline>'' @
     ''  data: {\<newline>'' @
     ''    content: createLexicalContent('x'),\<newline>'' @
     ''  },\<newline>'' @
     ''      draft: false,\<newline>'' @
     ''    })\<newline>''"

text \<open>A world with one file that holds no root structure at all.\<close>

definition plain_world :: world where
  "plain_world =
     \<lparr>w_files = Map.empty(''tests/int/blogs.int.spec.ts'' \<mapsto> ''const x = 1\<newline>''),
      w_writes = []\<rparr>"

text \<open>
  A user-creation site with the fields email, password and roles, indented by six blanks
  and by eight, and what the user-creation fix makes of each.
\<close>

definition user_site6 :: string where
  "user_site6 =
     ''      email: `test-a-${Date.now()}@example.com`,\<newline>'' @
     ''      password: 'test123',\<newline>'' @
     ''      roles: ['user'],\<newline>''"

definition user_site6_fixed :: string where
  "user_site6_fixed =
     ''      email: `test-a-${Date.now()}@example.com`,\<newline>'' @
     ''      password: 'test123',\<newline>'' @
     ''      firstName: 'Test',\<newline>'' @
     ''        lastName: 'User',\<newline>'' @
     ''        password: 'test123',\<newline>'' @
     ''        roles: ['user'],\<newline>''"

definition user_site8 :: string where
  "user_site8 =
     ''        email: `test-a-${Date.now()}@example.com`,\<newline>'' @
     ''        password: 'test123',\<newline>'' @
     ''        roles: ['user'],\<newline>''"

definition user_site8_fixed :: string where
  "user_site8_fixed =
     ''        email: `test-a-${Date.now()}@example.com`,\<newline>'' @
     ''        firstName: 'Test',\<newline>'' @
     ''        lastName: 'User',\<newline>'' @
     ''        password: 'test123',\<newline>'' @
     ''        roles: ['user'],\<newline>''"
















section \<open>Rewriting rules for concrete documents\<close>

declare ms.simps [simp del]
declare re_sub.simps [simp del]
declare re_sub_e.simps [simp del]
declare search_from.simps [simp del]
declare str_replace.simps [simp del]
declare split_acc.simps [simp del]

lemma lead_ne_ms: "lead_ne r x \<Longrightarrow> ms r (x # xs) c = []"
  by (induction r arbitrary: c) (auto simp: ms.simps split: list.splits)

lemma ms_unfold: "p = r \<Longrightarrow> ms p s c = ms r s c"
  by simp

lemma re_sub_ev:
  "re_sub r f [] = (case ms r [] Map.empty of [] \<Rightarrow> [] | p # _ \<Rightarrow> f \<lparr>whole = [], grp = snd p\<rparr>)"
  "lead_ne r x \<Longrightarrow> re_sub r f (x # xs) = x # re_sub r f xs"
  "\<not> lead_ne r x \<Longrightarrow> re_sub r f (x # xs) =
     (case ms r (x # xs) Map.empty of
        [] \<Rightarrow> x # re_sub r f xs
      | p # _ \<Rightarrow>
          (if length (fst p) < length (x # xs)
           then f \<lparr>whole = take (length (x # xs) - length (fst p)) (x # xs), grp = snd p\<rparr>
                @ re_sub r f (fst p)
           else f \<lparr>whole = [], grp = snd p\<rparr> @ x # re_sub r f xs))"
  by (simp_all add: re_sub.simps lead_ne_ms)

lemma re_sub_e_ev:
  "re_sub_e r f [] =
     (case ms r [] Map.empty of [] \<Rightarrow> Inr [] | p # _ \<Rightarrow> f \<lparr>whole = [], grp = snd p\<rparr>)"
  "lead_ne r x \<Longrightarrow> re_sub_e r f (x # xs) = bind_e (re_sub_e r f xs) (\<lambda>u. Inr (x # u))"
  "\<not> lead_ne r x \<Longrightarrow> re_sub_e r f (x # xs) =
     (case ms r (x # xs) Map.empty of
        [] \<Rightarrow> bind_e (re_sub_e r f xs) (\<lambda>u. Inr (x # u))
      | p # _ \<Rightarrow>
          (if length (fst p) < length (x # xs)
           then bind_e (f \<lparr>whole = take (length (x # xs) - length (fst p)) (x # xs),
                            grp = snd p\<rparr>)
                  (\<lambda>t. bind_e (re_sub_e r f (fst p)) (\<lambda>u. Inr (t @ u)))
           else bind_e (f \<lparr>whole = [], grp = snd p\<rparr>)
                  (\<lambda>t. bind_e (re_sub_e r f xs) (\<lambda>u. Inr (t @ x # u)))))"
  by (simp_all add: re_sub_e.simps lead_ne_ms)

lemma search_ev:
  "search_from r [] i =
     (case ms r [] Map.empty of
        [] \<Rightarrow> None
      | p # _ \<Rightarrow> Some (i, i, \<lparr>whole = [], grp = snd p\<rparr>))"
  "lead_ne r x \<Longrightarrow> search_from r (x # xs) i = search_from r xs (Suc i)"
  "\<not> lead_ne r x \<Longrightarrow> search_from r (x # xs) i =
     (case ms r (x # xs) Map.empty of
        [] \<Rightarrow> search_from r xs (Suc i)
      | p # _ \<Rightarrow> Some (i, i + (length (x # xs) - length (fst p)),
                       \<lparr>whole = take (length (x # xs) - length (fst p)) (x # xs), grp = snd p\<rparr>))"
  by (simp_all add: search_from.simps lead_ne_ms)

lemma starts_with_ev:
  "starts_with [] s = True"
  "starts_with (a # p) [] = False"
  "starts_with (a # p) (a # cs) = starts_with p cs"
  "a \<noteq> c \<Longrightarrow> starts_with (a # p) (c # cs) = False"
  by simp_all

lemma contains_ev:
  "contains [] s = True"
  "contains (a # p) [] = False"
  "contains (a # p) (a # cs) = (if starts_with p cs then True else contains (a # p) cs)"
  "a \<noteq> c \<Longrightarrow> contains (a # p) (c # cs) = contains (a # p) cs"
  by (cases s; simp_all)+

lemma str_replace_ev:
  "str_replace (a # old) new [] = []"
  "str_replace (a # old) new (a # xs) =
     (if starts_with old xs then new @ str_replace (a # old) new (drop (length old) xs)
      else a # str_replace (a # old) new xs)"
  "a \<noteq> x \<Longrightarrow> str_replace (a # old) new (x # xs) = x # str_replace (a # old) new xs"
  by (simp_all add: str_replace.simps)

lemma split_acc_ev:
  "split_acc sep [] cur = [rev cur]"
  "split_acc (a # sep) (a # xs) cur =
     (if starts_with sep xs then rev cur # split_acc (a # sep) (drop (length sep) xs) []
      else split_acc (a # sep) xs (a # cur))"
  "a \<noteq> x \<Longrightarrow> split_acc (a # sep) (x # xs) cur = split_acc (a # sep) xs (x # cur)"
  by (simp_all add: split_acc.simps)

lemma ms_Lit_ev:
  "ms (Lit []) s c = [(s, c)]"
  "ms (Lit (a # l)) [] c = []"
  "ms (Lit (a # l)) (a # xs) c = ms (Lit l) xs c"
  "a \<noteq> x \<Longrightarrow> ms (Lit (a # l)) (x # xs) c = []"
  by (simp_all add: ms.simps)

lemma stars_ev:
  "stars k s = stars_acc k s []"
  "stars_acc k [] acc = [] # acc"
  "cls_ok k x \<Longrightarrow> stars_acc k (x # xs) acc = stars_acc k xs ((x # xs) # acc)"
  "\<not> cls_ok k x \<Longrightarrow> stars_acc k (x # xs) acc = (x # xs) # acc"
  "pluss k [] = []"
  "cls_ok k x \<Longrightarrow> pluss k (x # xs) = stars_acc k xs []"
  "\<not> cls_ok k x \<Longrightarrow> pluss k (x # xs) = []"
  "lazys k [] = [[]]"
  "cls_ok k x \<Longrightarrow> lazys k (x # xs) = (x # xs) # lazys k xs"
  "\<not> cls_ok k x \<Longrightarrow> lazys k (x # xs) = [x # xs]"
  by (simp_all add: stars_def)

lemma ms_ev:
  "ms (Plus k) s c = pairs c (pluss k s)"
  "ms (Star k) s c = pairs c (stars k s)"
  "ms (Lazy k) s c = pairs c (lazys k s)"
  "ms (Cat a b) s c = bindm b (ms a s c)"
  "ms (Grp n r) s c = capm n s (ms r s c)"
  "ms (Opt r) s c = ms r s c @ [(s, c)]"
  "ms (Rep1 r) s c = bindr r s (ms r s c)"
  by (simp_all add: ms.simps bindm_def capm_def bindr_def pairs_def)

lemma aux_ev:
  "pairs c [] = []"
  "pairs c (t # ts) = (t, c) # pairs c ts"
  "bindm b [] = []"
  "bindm b ((t, c) # ps) = ms b t c @ bindm b ps"
  "capm n s [] = []"
  "capm n s ((t, c) # ps) = (t, c(n \<mapsto> take (length s - length t) s)) # capm n s ps"
  "bindr r s [] = []"
  "bindr r s ((t, c) # ps) =
     (if length t < length s then ms (Rep1 r) t c else []) @ (t, c) # bindr r s ps"
  by (simp_all add: bindm_def capm_def bindr_def pairs_def)

lemma err_ev:
  "bind_e (Inl e) f = Inl e"
  "bind_e (Inr v) f = f v"
  "nth_e [] i = Inl IndexError"
  "nth_e (y # ys) 0 = Inr y"
  "nth_e (y # z # zs) 1 = Inr z"
  "nth_e [y] 1 = Inl IndexError"
  by (simp_all add: bind_e_def nth_e_def)

lemmas base_ev = simp_thms if_True if_False char.inject list.inject list.distinct list.case
  option.case option.inject option.distinct prod.case fst_conv snd_conv prod.inject
  sum.case sum.inject sum.distinct
  append_Nil append_Cons append_Nil2 list.set insert_iff empty_iff rev.simps
  list.size(3,4) length_Cons take_Suc_Cons take_0 take_Nil drop_Suc_Cons drop_0 drop_Nil
  diff_Suc_Suc diff_zero minus_nat.diff_0 Suc_less_eq zero_less_Suc not_less_zero
  fun_upd_apply nat.inject nat.distinct add_Suc add_0 add_Suc_right add_0_right
  numeral_eq_one_iff one_eq_numeral_iff num.distinct numeral_eq_iff num.inject
  cls_ok.simps seq.simps sq_def space_chars_def word_chars_def rmatch.simps
  group_def tgroup_def cgroup_def lead_ne.simps Let_def de_Morgan_conj de_Morgan_disj
  re_search_def re_sub1_e_def str_split_def

lemmas rx_ev = re_sub_ev re_sub_e_ev search_ev starts_with_ev contains_ev str_replace_ev
  split_acc_ev ms_Lit_ev stars_ev ms_ev aux_ev err_ev base_ev

lemma pattern1_lead: "lead_ne pattern1 x = (CHR ''a'' \<noteq> x)"
  by (simp add: pattern1_def)

lemmas pattern1_ms = ms_unfold [OF pattern1_def]

lemma user_test_re_lead: "lead_ne user_test_re x = (CHR ''e'' \<noteq> x)"
  by (simp add: user_test_re_def)

lemmas user_test_re_ms = ms_unfold [OF user_test_re_def]

lemma user_another_re_lead: "lead_ne user_another_re x = (CHR ''e'' \<noteq> x)"
  by (simp add: user_another_re_def)

lemmas user_another_re_ms = ms_unfold [OF user_another_re_def]

lemma root_pattern_lead: "lead_ne root_pattern x = (CHR ''c'' \<noteq> x)"
  by (simp add: root_pattern_def)

lemmas root_pattern_ms = ms_unfold [OF root_pattern_def]

lemma root_pattern2_lead: "lead_ne root_pattern2 x = (CHR ''c'' \<noteq> x)"
  by (simp add: root_pattern2_def)

lemmas root_pattern2_ms = ms_unfold [OF root_pattern2_def]

lemma lexical_pattern_lead: "lead_ne lexical_pattern x = (CHR ''c'' \<noteq> x)"
  by (simp add: lexical_pattern_def)

lemmas lexical_pattern_ms = ms_unfold [OF lexical_pattern_def]

lemma import_re_lead: "lead_ne import_re x = (CHR ''i'' \<noteq> x)"
  by (simp add: import_re_def)

lemmas import_re_ms = ms_unfold [OF import_re_def]

lemma lazy_root_pattern_lead: "lead_ne lazy_root_pattern x = (CHR ''r'' \<noteq> x)"
  by (simp add: lazy_root_pattern_def)

lemmas lazy_root_pattern_ms = ms_unfold [OF lazy_root_pattern_def]

lemma content_block_re_lead: "lead_ne content_block_re x = (CHR ''c'' \<noteq> x)"
  by (simp add: content_block_re_def)

lemmas content_block_re_ms = ms_unfold [OF content_block_re_def]

lemma root_close_re_lead: "lead_ne root_close_re x = (CHR ''c'' \<noteq> x)"
  by (simp add: root_close_re_def)

lemmas root_close_re_ms = ms_unfold [OF root_close_re_def]

lemma draft_removal_re_lead: "lead_ne draft_removal_re x = (CHR ''c'' \<noteq> x)"
  by (simp add: draft_removal_re_def)

lemmas draft_removal_re_ms = ms_unfold [OF draft_removal_re_def]

lemmas pat_ev = pattern1_lead pattern1_ms user_test_re_lead user_test_re_ms user_another_re_lead user_another_re_ms root_pattern_lead root_pattern_ms root_pattern2_lead root_pattern2_ms lexical_pattern_lead lexical_pattern_ms import_re_lead import_re_ms lazy_root_pattern_lead lazy_root_pattern_ms content_block_re_lead content_block_re_ms root_close_re_lead root_close_re_ms draft_removal_re_lead draft_removal_re_ms

section \<open>The matcher and the words of a pattern\<close>

lemma starts_with_iff: "starts_with p s \<longleftrightarrow> (\<exists>t. s = p @ t)"
  by (induction p s rule: starts_with.induct) auto

lemma starts_with_append [simp]: "starts_with p (p @ t)"
  by (simp add: starts_with_iff)

lemma starts_with_drop: "starts_with p s \<Longrightarrow> p @ drop (length p) s = s"
  by (auto simp: starts_with_iff)

lemma stars_acc_set:
  "set (stars_acc k s acc) = set acc \<union> {t. \<exists>u. s = u @ t \<and> list_all (cls_ok k) u}"
proof (induction s arbitrary: acc)
  case Nil
  then show ?case by auto
next
  case (Cons x xs)
  have *: "{t. \<exists>u. x # xs = u @ t \<and> list_all (cls_ok k) u}
      = insert (x # xs) (if cls_ok k x then {t. \<exists>u. xs = u @ t \<and> list_all (cls_ok k) u} else {})"
    by (auto simp: Cons_eq_append_conv)
  show ?case
    by (simp add: Cons.IH * del: Un_insert_right) auto
qed

lemma stars_set: "set (stars k s) = {t. \<exists>u. s = u @ t \<and> list_all (cls_ok k) u}"
  by (simp add: stars_def stars_acc_set)

lemma pluss_set: "set (pluss k s) = {t. \<exists>u. s = u @ t \<and> u \<noteq> [] \<and> list_all (cls_ok k) u}"
proof (cases s)
  case Nil
  then show ?thesis by simp
next
  case (Cons x xs)
  then show ?thesis
    by (auto simp: stars_set Cons_eq_append_conv)
qed

lemma lazys_set: "set (lazys k s) = {t. \<exists>u. s = u @ t \<and> list_all (cls_ok k) u}"
proof (induction s)
  case Nil
  then show ?case by simp
next
  case (Cons x xs)
  show ?case
    by (auto simp: Cons.IH Cons_eq_append_conv)
qed

lemma ms_sound: "(t, c') \<in> set (ms r s c) \<Longrightarrow> \<exists>w \<in> lang r. s = w @ t"
proof (induction r s c arbitrary: t c' rule: ms.induct)
  case (1 l s c)
  then show ?case by (auto simp: ms.simps(1) starts_with_iff split: if_splits)
next
  case (2 k s c)
  then show ?case by (auto simp: ms.simps(2) pluss_set)
next
  case (3 k s c)
  then show ?case by (auto simp: ms.simps(3) stars_set)
next
  case (4 k s c)
  then show ?case by (auto simp: ms.simps(4) lazys_set)
next
  case (5 a b s c)
  from "5.prems" obtain p where p: "p \<in> set (ms a s c)" and t: "(t, c') \<in> set (ms b (fst p) (snd p))"
    by (auto simp: ms.simps(5))
  from "5.IH"(1) [of "fst p" "snd p"] p obtain u where u: "u \<in> lang a" "s = u @ fst p" by auto
  from "5.IH"(2) [OF p t] obtain v where v: "v \<in> lang b" "fst p = v @ t" by auto
  from u v show ?case by auto
next
  case (6 n r s c)
  then show ?case by (auto simp: ms.simps(6))
next
  case (7 r s c)
  then show ?case by (auto simp: ms.simps(7))
next
  case (8 r s c)
  from "8.prems" have "(t, c') \<in> set (bindr r s (ms r s c))"
    by (simp only: ms_ev)
  then obtain p where p: "p \<in> set (ms r s c)"
    and t: "(length (fst p) < length s \<and> (t, c') \<in> set (ms (Rep1 r) (fst p) (snd p))) \<or> (t, c') = p"
    by (auto simp: bindr_def split: if_splits)
  from "8.IH"(1) [of "fst p" "snd p"] p obtain u where u: "u \<in> lang r" "s = u @ fst p" by auto
  from t show ?case
  proof
    assume a: "length (fst p) < length s \<and> (t, c') \<in> set (ms (Rep1 r) (fst p) (snd p))"
    with "8.IH"(2) [OF p] obtain w where w: "w \<in> lang (Rep1 r)" "fst p = w @ t"
      by blast
    then obtain ws where ws: "ws \<noteq> []" "set ws \<subseteq> lang r" "fst p = concat ws @ t"
      by auto
    have "concat (u # ws) \<in> lang (Rep1 r)" using u ws by (auto intro!: exI [of _ "u # ws"])
    with u ws show ?thesis by auto
  next
    assume "(t, c') = p"
    moreover have "concat [u] \<in> lang (Rep1 r)" using u by (auto intro!: exI [of _ "[u]"])
    ultimately show ?thesis using u by auto
  qed
qed

lemma search_from_sound:
  "search_from r s i = Some (a, b, m) \<Longrightarrow>
     \<exists>pre post. s = pre @ whole m @ post \<and> whole m \<in> lang r \<and> a = i + length pre
       \<and> b = a + length (whole m)"
proof (induction s arbitrary: i)
  case Nil
  then obtain p ps where "ms r [] Map.empty = p # ps" "whole m = []" "a = i" "b = i"
    by (auto simp: search_from.simps split: list.splits)
  moreover from this ms_sound [of "fst p" "snd p" r "[]" Map.empty] have "[] \<in> lang r" by auto
  ultimately show ?case by auto
next
  case (Cons x xs)
  show ?case
  proof (cases "ms r (x # xs) Map.empty")
    case Nil
    with Cons.prems have "search_from r xs (Suc i) = Some (a, b, m)"
      by (simp add: search_from.simps)
    from Cons.IH [OF this] obtain pre post where
      "xs = pre @ whole m @ post" "whole m \<in> lang r" "a = Suc i + length pre" "b = a + length (whole m)"
      by auto
    then show ?thesis
      by (intro exI [of _ "x # pre"] exI [of _ post]) auto
  next
    case (Cons p ps)
    with ms_sound [of "fst p" "snd p" r "x # xs" Map.empty]
    obtain w where w: "w \<in> lang r" "x # xs = w @ fst p" by auto
    then have len: "length (x # xs) - length (fst p) = length w"
      by (metis add_diff_cancel_right' length_append)
    from Cons Cons.prems have a: "a = i" and b: "b = i + (length (x # xs) - length (fst p))"
      and m: "whole m = take (length (x # xs) - length (fst p)) (x # xs)"
      by (auto simp: search_from.simps)
    from m w len have "whole m = w" by (metis append_eq_conv_conj)
    with w a b len show ?thesis
      by (intro exI [of _ "[]"] exI [of _ "fst p"]) auto
  qed
qed

lemma ms_Rep1_set:
  "set (ms (Rep1 r) s c) =
     (\<Union>p \<in> set (ms r s c).
        (if length (fst p) < length s then set (ms (Rep1 r) (fst p) (snd p)) else {}) \<union> {p})"
  by (subst ms.simps(8)) (auto split: if_splits)

lemma ms_Rep1_last: "p \<in> set (ms r s c) \<Longrightarrow> p \<in> set (ms (Rep1 r) s c)"
  by (subst ms_Rep1_set) auto

lemma ms_Rep1_more:
  "p \<in> set (ms r s c) \<Longrightarrow> length (fst p) < length s \<Longrightarrow>
     q \<in> set (ms (Rep1 r) (fst p) (snd p)) \<Longrightarrow> q \<in> set (ms (Rep1 r) s c)"
  by (subst ms_Rep1_set) auto

lemma ms_complete: "w \<in> lang r \<Longrightarrow> \<exists>c'. (t, c') \<in> set (ms r (w @ t) c)"
proof (induction r arbitrary: w t c)
  case (Lit l)
  then show ?case by (simp add: ms.simps(1))
next
  case (Plus k)
  then show ?case by (auto simp: ms.simps(2) pluss_set)
next
  case (Star k)
  then show ?case by (auto simp: ms.simps(3) stars_set)
next
  case (Lazy k)
  then show ?case by (auto simp: ms.simps(4) lazys_set)
next
  case (Cat a b)
  from Cat.prems obtain u v where uv: "w = u @ v" "u \<in> lang a" "v \<in> lang b" by auto
  from Cat.IH(1) [OF uv(2), of "v @ t" c] obtain c1 where c1: "(v @ t, c1) \<in> set (ms a (u @ v @ t) c)" by auto
  from Cat.IH(2) [OF uv(3), of t c1] obtain c2 where "(t, c2) \<in> set (ms b (v @ t) c1)" by auto
  with c1 uv(1) show ?case by (auto simp: ms.simps(5) intro!: exI [of _ c2] bexI [of _ "(v @ t, c1)"])
next
  case (Grp n r)
  from Grp.IH [of w t c] Grp.prems obtain c1 where "(t, c1) \<in> set (ms r (w @ t) c)" by auto
  then show ?case by (force simp: ms.simps(6))
next
  case (Opt r)
  then show ?case by (fastforce simp: ms.simps(7))
next
  case (Rep1 r)
  from Rep1.prems obtain ws where ws: "w = concat ws" "ws \<noteq> []" "set ws \<subseteq> lang r" by auto
  have "\<exists>c'. (t, c') \<in> set (ms (Rep1 r) (concat ws @ t) c)" using ws(2,3)
  proof (induction ws arbitrary: c)
    case Nil
    then show ?case by simp
  next
    case (Cons w1 ws')
    show ?case
    proof (cases "ws' = []")
      case True
      from Rep1.IH [of w1 t c] Cons.prems obtain c1 where "(t, c1) \<in> set (ms r (w1 @ t) c)" by auto
      with True show ?thesis
        using ms_Rep1_last [of "(t, c1)" r "w1 @ t" c] by auto
    next
      case False
      show ?thesis
      proof (cases "w1 = []")
        case True
        with Cons.IH [OF False, of c] Cons.prems show ?thesis by simp
      next
        case w1: False
        from Rep1.IH [of w1 "concat ws' @ t" c] Cons.prems
        obtain c1 where c1: "(concat ws' @ t, c1) \<in> set (ms r (w1 @ concat ws' @ t) c)" by auto
        from Cons.IH [OF False, of c1] Cons.prems
        obtain c2 where c2: "(t, c2) \<in> set (ms (Rep1 r) (concat ws' @ t) c1)" by auto
        from c1 c2 w1 show ?thesis
          using ms_Rep1_more [of "(concat ws' @ t, c1)" r "w1 @ concat ws' @ t" c "(t, c2)"] by auto
      qed
    qed
  qed
  with ws(1) show ?case by simp
qed
section \<open>The claims\<close>

lemmas pipe_ev = apply_fixes_def wanted_def add_lexical_helper_def fix_user_creation_def
  fix_root_structures_def fix_lexical_content_def add_draft_def add_names_test_def
  add_names_another_def add_root_properties_def replace_content_def draft_text_def
  roles_old_def test_fields_def test_dup_def another_fields_def another_dup_def root_props_def

lemma users_doc_first_run:
  "apply_fixes None users_doc = (users_doc_fixed, [''Fixed Lexical content structures''])"
  by (simp only: rx_ev pat_ev pipe_ev users_doc_def users_doc_fixed_def
      cong: if_weak_cong list.case_cong_weak option.case_cong_weak)

lemma users_doc_second_run:
  "apply_fixes None users_doc_fixed = (users_doc_refixed, [''Fixed user creation''])"
  by (simp only: rx_ev pat_ev pipe_ev users_doc_fixed_def users_doc_refixed_def
      cong: if_weak_cong list.case_cong_weak option.case_cong_weak)

lemma users_doc_refixed_differs: "users_doc_refixed \<noteq> users_doc_fixed"
  by (simp add: users_doc_refixed_def users_doc_fixed_def)

text \<open>
  C1 (idempotence of the pipeline). The claim says that a second run of the full set of
  fixes changes nothing. On \<open>users_doc\<close> the first run of all four fixes of
  \<open>process_file\<close> rewrites the content object into a helper call; that removes every
  closing brace from the data object, so on the second run the draft pattern matches and
  \<open>draft: false\<close> is added: the second run's output differs from the first run's.
\<close>

theorem pipeline_second_run_changes:
  "fst (apply_fixes None (fst (apply_fixes None users_doc))) \<noteq> fst (apply_fixes None users_doc)"
  by (simp only: users_doc_first_run users_doc_second_run fst_conv users_doc_refixed_differs
      not_False_eq_True)

lemma plain_content_unchanged:
  "fix_test_files_content ''const x = 1\<newline>'' = ''const x = 1\<newline>''"
  by (simp only: rx_ev pat_ev fix_test_files_content_def
      cong: if_weak_cong list.case_cong_weak option.case_cong_weak)

lemma process_file_no_write:
  "w_files w p = Some c \<Longrightarrow> fst (apply_fixes ft c) = c \<Longrightarrow> process_file p ft w = (False, w)"
  by (simp add: process_file_def)

text \<open>
  C7 (persist only on change). \<open>process_file\<close> compares the content with the original
  before it writes (\<open>process_file_no_write\<close>), and so do fix_root_structure.py and
  fix_all_remaining_errors.py. The loop of fix_test_files.py has no such test: on a file
  in which the pattern matches nothing the content stays the same and the file is written
  back all the same.
\<close>

theorem fix_test_files_writes_unchanged_file:
  "w_files (fix_test_files_file ''tests/int/blogs.int.spec.ts'' plain_world)
     = w_files plain_world
   \<and> w_writes (fix_test_files_file ''tests/int/blogs.int.spec.ts'' plain_world)
     = [''tests/int/blogs.int.spec.ts'']"
  by (simp add: fix_test_files_file_def plain_world_def plain_content_unchanged write_file_def)

text \<open>
  C8 (unknown rule name). When a value of \<open>--fix-types\<close> is not one of the four choices,
  \<open>main\<close> ends with the exit error of \<open>parse_args\<close> before any file is read: the world
  is returned as it was, with no file changed and no write logged.
\<close>

theorem unknown_rule_is_fatal:
  assumes "arg_fix_types a = Some ts" and "t \<in> set ts" and "t \<notin> set fix_choices"
  shows "main glob a w = (Inl (SystemExit 2), w)"
proof -
  from assms(2,3) have "\<not> list_all (\<lambda>t. t \<in> set fix_choices) ts"
    by (auto simp: list_all_iff)
  with assms(1) show ?thesis
    by (simp add: main_def parse_args_def)
qed

theorem unknown_rule_is_fatal_witness:
  "main (\<lambda>w p. []) \<lparr>arg_files = [''a.ts''],
      arg_fix_types = Some [''user-creation'', ''bogus''], arg_pattern = None\<rparr> plain_world
   = (Inl (SystemExit 2), plain_world)"
  using unknown_rule_is_fatal [of "\<lparr>arg_files = [''a.ts''],
      arg_fix_types = Some [''user-creation'', ''bogus''], arg_pattern = None\<rparr>"
      "[''user-creation'', ''bogus'']" "''bogus''" "\<lambda>w p. []" plain_world]
  by (simp add: fix_choices_def)

subsection \<open>The helper insertion and import lines\<close>

lemma import_line_lang:
  "lang (Grp 1 (seq [Lit ''import '', Plus Dot, Lit ''\<newline>'']))
     = {''import '' @ b @ [CHR 0x0A] | b. b \<noteq> [] \<and> CHR 0x0A \<notin> set b}"
  by (auto simp: list_all_iff)

lemma import_lang_first:
  assumes "w \<in> lang import_re"
  shows "\<exists>b rest. w = ''import '' @ b @ CHR 0x0A # rest \<and> b \<noteq> [] \<and> CHR 0x0A \<notin> set b"
proof -
  from assms obtain ws where ws: "w = concat ws" "ws \<noteq> []"
      "set ws \<subseteq> {''import '' @ b @ [CHR 0x0A] | b. b \<noteq> [] \<and> CHR 0x0A \<notin> set b}"
    unfolding import_re_def lang.simps(8) import_line_lang by blast
  then obtain w1 ws' where "ws = w1 # ws'" by (cases ws) auto
  with ws obtain b where "w1 = ''import '' @ b @ [CHR 0x0A]" "b \<noteq> []" "CHR 0x0A \<notin> set b" by auto
  with ws(1) \<open>ws = w1 # ws'\<close> show ?thesis
    by (intro exI [of _ b] exI [of _ "concat ws'"]) simp
qed


lemma import_at_lang: "w \<in> lang import_re \<Longrightarrow> import_at (w @ post)"
  by (drule import_lang_first) (auto simp: import_at_def neq_Nil_conv)

lemma lang_import_at:
  assumes "import_at s"
  shows "\<exists>w t. s = w @ t \<and> w \<in> lang import_re"
proof -
  from assms have sw: "starts_with ''import '' s"
    and rest: "case drop 7 s of [] \<Rightarrow> False | c # r \<Rightarrow> c \<noteq> CHR 0x0A \<and> CHR 0x0A \<in> set r"
    by (simp_all add: import_at_def)
  from sw obtain u where u: "s = ''import '' @ u" using starts_with_iff by blast
  then have "drop 7 s = u" by simp
  with rest obtain c r where cr: "u = c # r" "c \<noteq> CHR 0x0A" "CHR 0x0A \<in> set r"
    by (cases u) auto
  from split_list_first [OF cr(3)] obtain r1 r2 where r: "r = r1 @ CHR 0x0A # r2" "CHR 0x0A \<notin> set r1"
    by auto
  define w where "w = ''import '' @ (c # r1) @ [CHR 0x0A]"
  have "w \<in> {''import '' @ b @ [CHR 0x0A] | b. b \<noteq> [] \<and> CHR 0x0A \<notin> set b}"
  proof (rule CollectI, rule exI [of _ "c # r1"])
    show "w = ''import '' @ (c # r1) @ [CHR 0x0A] \<and> c # r1 \<noteq> [] \<and> CHR 0x0A \<notin> set (c # r1)"
      using cr(2) r(2) by (auto simp: w_def)
  qed
  then have "w \<in> lang (Grp 1 (seq [Lit ''import '', Plus Dot, Lit ''\<newline>'']))"
    by (simp only: import_line_lang)
  then have "concat [w] \<in> lang import_re"
    unfolding import_re_def lang.simps(8) by (intro CollectI exI [of _ "[w]"]) simp
  then have "w \<in> lang import_re" by simp
  moreover have "s = w @ r2" using u cr(1) r(1) by (simp add: w_def)
  ultimately show ?thesis by blast
qed

lemma has_import_append: "import_at t \<Longrightarrow> has_import (pre @ t)"
proof (induction pre)
  case Nil
  then show ?case by (cases t) (auto simp: import_at_def)
next
  case (Cons a pre)
  then show ?case by simp
qed

lemma search_import_sound: "search_from import_re s i = Some x \<Longrightarrow> has_import s"
proof -
  assume a: "search_from import_re s i = Some x"
  obtain a' b m where x: "x = (a', b, m)" by (cases x) auto
  from search_from_sound [OF a [unfolded x]] obtain pre post where
    "s = pre @ whole m @ post" "whole m \<in> lang import_re" by auto
  then show ?thesis using has_import_append [OF import_at_lang, of "whole m" pre post] by simp
qed

lemma search_import_complete: "has_import s \<Longrightarrow> search_from import_re s i \<noteq> None"
proof (induction s arbitrary: i)
  case Nil
  then show ?case by simp
next
  case (Cons x xs)
  show ?case
  proof (cases "ms import_re (x # xs) Map.empty")
    case Nil
    have "\<not> import_at (x # xs)"
    proof
      assume "import_at (x # xs)"
      from lang_import_at [OF this] obtain w t where "x # xs = w @ t" "w \<in> lang import_re" by auto
      with ms_complete [of w import_re t Map.empty] Nil show False by auto
    qed
    with Cons.prems have "has_import xs" by simp
    from Cons.IH [OF this] Nil show ?thesis by (simp add: search_from.simps)
  next
    case (Cons p ps)
    then show ?thesis by (simp add: search_from.simps)
  qed
qed

lemma no_import_no_search: "\<not> has_import d \<Longrightarrow> re_search import_re d = None"
  using search_import_sound [of d 0] by (cases "re_search import_re d") (auto simp: re_search_def)

text \<open>
  C10 (no import line, no insertion). A document that does not contain the text
  \<open>createLexicalContent\<close> and has no import line is returned unchanged by the helper
  insertion of both scripts, and \<open>fixes_applied\<close> is returned as it was: no change is
  reported.
\<close>

theorem helper_needs_import:
  assumes "\<not> contains ''createLexicalContent'' d" and "\<not> has_import d"
  shows "add_lexical_helper d fixes_applied = (d, fixes_applied) \<and> insert_helper d = d"
  using assms by (simp add: add_lexical_helper_def insert_helper_def no_import_no_search)

theorem helper_needs_import_witness:
  "\<not> contains ''createLexicalContent'' ''const x = 1\<newline>''
   \<and> \<not> has_import ''const x = 1\<newline>''
   \<and> add_lexical_helper ''const x = 1\<newline>'' [] = (''const x = 1\<newline>'', [])
   \<and> insert_helper ''const x = 1\<newline>'' = ''const x = 1\<newline>''"
  using helper_needs_import [of "''const x = 1\<newline>''" "[]"]
  by (simp add: import_at_def)

subsection \<open>Counting the helper declaration\<close>

lemma contains_iff: "contains p s \<longleftrightarrow> (\<exists>a b. s = a @ p @ b)"
proof (induction s)
  case Nil
  then show ?case by (cases p) auto
next
  case (Cons c cs)
  show ?case
  proof
    assume "contains p (c # cs)"
    then consider "starts_with p (c # cs)" | "contains p cs" by (auto split: if_splits)
    then show "\<exists>a b. c # cs = a @ p @ b"
    proof cases
      case 1
      then obtain t where "c # cs = p @ t" by (auto simp: starts_with_iff)
      then show ?thesis by (intro exI [of _ "[]"] exI [of _ t]) simp
    next
      case 2
      with Cons.IH obtain a b where "cs = a @ p @ b" by auto
      then show ?thesis by (intro exI [of _ "c # a"] exI [of _ b]) simp
    qed
  next
    assume "\<exists>a b. c # cs = a @ p @ b"
    then obtain a b where ab: "c # cs = a @ p @ b" by auto
    show "contains p (c # cs)"
    proof (cases a)
      case Nil
      with ab have "starts_with p (c # cs)" by (auto simp: starts_with_iff)
      then show ?thesis by simp
    next
      case (Cons x a')
      with ab have "cs = a' @ p @ b" by simp
      with Cons.IH have "contains p cs" by auto
      then show ?thesis by simp
    qed
  qed
qed


lemma contains_append_cases: "\<not> contains p (a @ b) \<Longrightarrow> \<not> contains p a \<and> \<not> contains p b"
  unfolding contains_iff by (metis append.assoc append_Nil append_Nil2)

lemma contains_longer: "contains (u @ v) s \<Longrightarrow> contains v s"
  unfolding contains_iff by (metis append.assoc)

lemma count_sub_zero: "count_sub p s = 0 \<longleftrightarrow> \<not> contains p s"
  by (induction s) auto

lemma starts_with_sep: "c \<notin> set p \<Longrightarrow> starts_with p (a @ c # s) = starts_with p a"
proof (induction p a rule: starts_with.induct)
  case (1 s)
  then show ?case by simp
next
  case (2 p ps)
  then show ?case by auto
next
  case (3 p ps c cs)
  then show ?case by auto
qed

lemma count_sub_sep:
  "c \<notin> set p \<Longrightarrow> p \<noteq> [] \<Longrightarrow> count_sub p (a @ c # s) = count_sub p a + count_sub p s"
proof (induction a)
  case Nil
  then show ?case by (cases p) auto
next
  case (Cons x a)
  from Cons.prems(1) have "starts_with p (x # a @ c # s) = starts_with p (x # a)"
    using starts_with_sep [of c p "x # a" s] by simp
  with Cons show ?case by simp
qed

lemma count_sub_last:
  assumes "c \<notin> set p" "p \<noteq> []" "h \<noteq> []" "last h = c"
  shows "count_sub p (h @ b) = count_sub p h + count_sub p b"
proof -
  from assms(3,4) have h: "h = butlast h @ [c]" by (metis append_butlast_last_id)
  have "count_sub p (h @ b) = count_sub p (butlast h @ c # b)" by (subst h) simp
  also have "\<dots> = count_sub p (butlast h) + count_sub p b" by (rule count_sub_sep [OF assms(1,2)])
  also have "count_sub p (butlast h) = count_sub p (butlast h @ c # [])"
    using count_sub_sep [OF assms(1,2), of "butlast h" "[]"] assms(2) by (cases p) auto
  also have "butlast h @ c # [] = h" using h by simp
  finally show ?thesis .
qed

lemma count_sub_ev:
  "count_sub (a # p) [] = 0"
  "count_sub (a # p) (a # cs) = (if starts_with p cs then 1 else 0) + count_sub (a # p) cs"
  "a \<noteq> c \<Longrightarrow> count_sub (a # p) (c # cs) = count_sub (a # p) cs"
  by simp_all

lemma helper_count: "count_sub ''const createLexicalContent'' helper_function = 1"
  by (simp only: count_sub_ev rx_ev helper_function_def add_0 add_0_right
      cong: if_weak_cong)


lemma helper_ends: "helper_function \<noteq> [] \<and> last helper_function = CHR 0x0A
    \<and> (\<exists>t. helper_function = CHR 0x0A # t)"
  by (simp add: helper_function_def)

lemma helper_count_in:
  "count_sub ''const createLexicalContent'' (a @ helper_function @ b)
     = count_sub ''const createLexicalContent'' a + 1 + count_sub ''const createLexicalContent'' b"
proof -
  from helper_ends obtain t where t: "helper_function = CHR 0x0A # t" by auto
  have "count_sub ''const createLexicalContent'' (a @ helper_function @ b)
      = count_sub ''const createLexicalContent'' (a @ CHR 0x0A # (t @ b))" by (simp add: t)
  also have "\<dots> = count_sub ''const createLexicalContent'' a
      + count_sub ''const createLexicalContent'' (t @ b)"
    by (rule count_sub_sep) simp_all
  also have "count_sub ''const createLexicalContent'' (t @ b)
      = count_sub ''const createLexicalContent'' (helper_function @ b)"
    by (simp add: t)
  also have "\<dots> = count_sub ''const createLexicalContent'' helper_function
      + count_sub ''const createLexicalContent'' b"
    by (rule count_sub_last [where c = "CHR 0x0A"]) (use helper_ends in simp_all)
  finally show ?thesis by (simp add: helper_count)
qed



lemma helper_inserted_once:
  assumes "\<not> contains ''createLexicalContent'' d" and "has_import d"
  shows "count_sub ''const createLexicalContent'' (fst (add_lexical_helper d fa)) = 1"
proof -
  from search_import_complete [OF assms(2), of 0] obtain i p m where
    s: "re_search import_re d = Some (i, p, m)" by (auto simp: re_search_def)
  have out: "fst (add_lexical_helper d fa) = take p d @ helper_function @ drop p d"
    using assms(1) s by (simp add: add_lexical_helper_def)
  from assms(1) have "\<not> contains (''const '' @ ''createLexicalContent'') d"
    using contains_longer [of "''const ''" "''createLexicalContent''" d] by blast
  then have "\<not> contains ''const createLexicalContent'' (take p d @ drop p d)" by simp
  from contains_append_cases [OF this]
  have "count_sub ''const createLexicalContent'' (take p d) = 0"
    "count_sub ''const createLexicalContent'' (drop p d) = 0"
    by (simp_all add: count_sub_zero)
  then show ?thesis by (simp add: out helper_count_in)
qed


















subsection \<open>The user-creation fix\<close>

lemma user_site8_run:
  "fix_user_creation user_site8 [] = (user_site8_fixed, [''Fixed user creation''])"
  by (simp only: rx_ev pat_ev pipe_ev str_replace_ev user_site8_def user_site8_fixed_def
      cong: if_weak_cong list.case_cong_weak option.case_cong_weak)

text \<open>
  C5 (firstName and lastName at a user-creation site). The replacement writes
  \<open>firstName\<close>, \<open>lastName\<close> and a second \<open>password\<close> in front of \<open>roles\<close> and then deletes
  the first \<open>password\<close>, but only where it is followed by a newline and exactly eight
  blanks: at that indentation the fields come out as email, firstName, lastName,
  password, roles (\<open>user_site8_run\<close>). At a site indented by six blanks the deletion
  finds nothing and the password field is there twice.
\<close>

theorem user_site6_password_twice:
  "fix_user_creation user_site6 [] = (user_site6_fixed, [''Fixed user creation''])
   \<and> count_sub ''password:'' user_site6 = 1
   \<and> count_sub ''password:'' user_site6_fixed = 2"
  by (simp only: rx_ev pat_ev pipe_ev str_replace_ev count_sub_ev user_site6_def
      user_site6_fixed_def numeral_2_eq_2 One_nat_def
      cong: if_weak_cong list.case_cong_weak option.case_cong_weak)

subsection \<open>Sites of one substitution\<close>














subsection \<open>The root-structure fix on complete sites\<close>















end
